theory Spec2Isabelle
  imports Main "HOL-Library.Sublist"
begin

section \<open>Python strings\<close>

text \<open>
  A Python \<open>str\<close> that the script looks into is modelled as a \<open>string\<close>, a list
  of 8-bit characters: the replies, messages, model names and input files
  considered are sequences of code points below 256. The operations below are
  the \<open>str\<close> methods the script calls on them.
\<close>

text \<open>
  The strings the script only passes on, without looking into them, can hold any
  code point: the strings \<open>json.loads\<close> decodes (an escape \<open>\uXXXX\<close> may write
  any), the header comment and the text saved. They are lists of code points, and
  \<open>code_points\<close> takes a text of the first kind to one of these.
\<close>

type_synonym pystr = "nat list"

definition code_points :: "string \<Rightarrow> pystr" where
  "code_points s = map of_char s"

text \<open>\<open>c.lower()\<close> on one code point below 256: the ASCII capitals and the Latin-1
  capitals \<open>0xC0..0xDE\<close> (without the multiplication sign \<open>0xD7\<close>) move up by 32.
  Bit 5, of value 32, is clear in both ranges, so adding 32 sets it.\<close>

definition lower_char :: "char \<Rightarrow> char" where
  "lower_char c =
     (let n = (of_char c :: nat)
      in if (65 \<le> n \<and> n \<le> 90) \<or> (192 \<le> n \<and> n \<le> 222 \<and> n \<noteq> 215)
         then (case c of Char b0 b1 b2 b3 b4 b5 b6 b7 \<Rightarrow> Char b0 b1 b2 b3 b4 True b6 b7)
         else c)"

definition lower :: "string \<Rightarrow> string" where
  "lower s = map lower_char s"

text \<open>\<open>needle in hay\<close> on strings: \<open>needle\<close> occurs as a contiguous substring.\<close>

fun contains :: "string \<Rightarrow> string \<Rightarrow> bool" where
  "contains needle [] = (needle = [])"
| "contains needle (c # cs) = (prefix needle (c # cs) \<or> contains needle cs)"

text \<open>\<open>s.split('/')[-1]\<close>: the part of \<open>s\<close> after its last slash, all of \<open>s\<close> when
  it has none.\<close>

definition last_segment :: "string \<Rightarrow> string" where
  "last_segment s = rev (takeWhile (\<lambda>c. c \<noteq> CHR ''/'') (rev s))"

text \<open>\<open>c.isspace()\<close> below 256, which is also the class \<open>\s\<close> of \<open>re\<close> on a
  \<open>str\<close>: tab to carriage return, the four separators \<open>0x1C..0x1F\<close>, the space,
  \<open>0x85\<close> and the no-break space.\<close>

definition is_space :: "char \<Rightarrow> bool" where
  "is_space c =
     (let n = (of_char c :: nat)
      in (9 \<le> n \<and> n \<le> 13) \<or> (28 \<le> n \<and> n \<le> 32) \<or> n = 133 \<or> n = 160)"

text \<open>\<open>s.strip()\<close>.\<close>

definition strip :: "string \<Rightarrow> string" where
  "strip s = dropWhile is_space (rev (dropWhile is_space (rev s)))"

text \<open>\<open>s.replace(old, new)\<close>: the occurrences of \<open>old\<close> are found from the left and
  do not overlap. \<open>replace_all\<close> is the scan for a non-empty \<open>old\<close>: at an
  occurrence it writes \<open>new\<close> and goes on behind the occurrence.\<close>

fun replace_all :: "string \<Rightarrow> string \<Rightarrow> string \<Rightarrow> string" where
  "replace_all old new [] = []"
| "replace_all old new (c # cs) =
     (if prefix old (c # cs) then new @ replace_all old new (drop (length old - 1) cs)
      else c # replace_all old new cs)"

definition py_replace :: "string \<Rightarrow> string \<Rightarrow> string \<Rightarrow> string" where
  "py_replace old new s =
     (if old = [] then new @ concat (map (\<lambda>c. c # new) s) else replace_all old new s)"

section \<open>Regular expressions\<close>

text \<open>
  The five patterns of the script are sequences of the atoms below: a literal, a
  literal under \<open>re.IGNORECASE\<close>, an optional literal \<open>(?:lit)?\<close>, a character
  class under \<open>*\<close>, \<open>+\<close>, \<open>*?\<close> or \<open>+?\<close>, and the two ends of group 1.
  \<open>rx_match\<close> is the backtracking matcher of \<open>re\<close> at one start position: a greedy
  atom tries its longest repetition first, a lazy one its shortest, an optional
  literal is tried present before absent, and the first alternative under which
  the rest of the pattern matches wins. It returns the text left at the start and
  at the end of group 1, and the text left after the match.
\<close>

datatype atom =
    Lit string
  | LitCI string
  | OptLit string
  | Star "char \<Rightarrow> bool"
  | Plus "char \<Rightarrow> bool"
  | LazyStar "char \<Rightarrow> bool"
  | LazyPlus "char \<Rightarrow> bool"
  | GroupOpen
  | GroupClose

fun rx_match :: "atom list \<Rightarrow> string \<Rightarrow> (string \<times> string \<times> string) option" where
  "rx_match [] s = Some ([], [], s)"
| "rx_match (Lit l # r) s =
     (if prefix l s then rx_match r (drop (length l) s) else None)"
| "rx_match (LitCI l # r) s =
     (if length l \<le> length s \<and> lower (take (length l) s) = lower l
      then rx_match r (drop (length l) s) else None)"
| "rx_match (OptLit l # r) s =
     (if prefix l s
      then (case rx_match r (drop (length l) s) of Some x \<Rightarrow> Some x | None \<Rightarrow> rx_match r s)
      else rx_match r s)"
| "rx_match (Star P # r) [] = rx_match r []"
| "rx_match (Star P # r) (c # cs) =
     (if P c
      then (case rx_match (Star P # r) cs of Some x \<Rightarrow> Some x | None \<Rightarrow> rx_match r (c # cs))
      else rx_match r (c # cs))"
| "rx_match (Plus P # r) [] = None"
| "rx_match (Plus P # r) (c # cs) = (if P c then rx_match (Star P # r) cs else None)"
| "rx_match (LazyStar P # r) [] = rx_match r []"
| "rx_match (LazyStar P # r) (c # cs) =
     (case rx_match r (c # cs) of
        Some x \<Rightarrow> Some x
      | None \<Rightarrow> (if P c then rx_match (LazyStar P # r) cs else None))"
| "rx_match (LazyPlus P # r) [] = None"
| "rx_match (LazyPlus P # r) (c # cs) = (if P c then rx_match (LazyStar P # r) cs else None)"
| "rx_match (GroupOpen # r) s =
     (case rx_match r s of Some (go, gc, e) \<Rightarrow> Some (s, gc, e) | None \<Rightarrow> None)"
| "rx_match (GroupClose # r) s =
     (case rx_match r s of Some (go, gc, e) \<Rightarrow> Some (go, s, e) | None \<Rightarrow> None)"

text \<open>A match object: \<open>group(0)\<close> and \<open>group(1)\<close>, cut out of the text \<open>s\<close> the match
  started at.\<close>

definition match_groups :: "string \<Rightarrow> string \<times> string \<times> string \<Rightarrow> string \<times> string" where
  "match_groups s x =
     (case x of (go, gc, e) \<Rightarrow>
        (take (length s - length e) s, take (length go - length gc) go))"

text \<open>\<open>re.search(p, s)\<close>: the match at the leftmost start position that has one.\<close>

fun rx_search :: "atom list \<Rightarrow> string \<Rightarrow> (string \<times> string) option" where
  "rx_search p [] = map_option (match_groups []) (rx_match p [])"
| "rx_search p (c # cs) =
     (case rx_match p (c # cs) of
        Some x \<Rightarrow> Some (match_groups (c # cs) x)
      | None \<Rightarrow> rx_search p cs)"

definition any_char :: "char \<Rightarrow> bool" where
  "any_char c = True"

definition not_brace :: "char \<Rightarrow> bool" where
  "not_brace c \<longleftrightarrow> c \<noteq> CHR ''{'' \<and> c \<noteq> CHR ''}''"

definition not_quote :: "char \<Rightarrow> bool" where
  "not_quote c \<longleftrightarrow> c \<noteq> CHR 0x22"

text \<open>Line 448, with \<open>re.DOTALL\<close>: \<^verbatim>\<open>```(?:json)?(.+?)```\<close>.\<close>

definition code_block_json_pattern :: "atom list" where
  "code_block_json_pattern =
     [Lit ''```'', OptLit ''json'', GroupOpen, LazyPlus any_char, GroupClose, Lit ''```'']"

text \<open>Line 460, with \<open>re.DOTALL\<close>:
  \<^verbatim>\<open>\{[^{}]*\"company\"[^{}]*\"position\"[^{}]*\}\<close>.\<close>

definition json_pattern :: "atom list" where
  \<open>json_pattern =
     [Lit ''{'', Star not_brace, Lit ''"company"'', Star not_brace, Lit ''"position"'',
      Star not_brace, Lit ''}'']\<close>

text \<open>Lines 497 and 502, with \<open>re.IGNORECASE\<close>:
  \<^verbatim>\<open>company\"?\s*:\s*\"([^\"]+)\"\<close> and the same for \<open>position\<close>.\<close>

definition field_pattern :: "string \<Rightarrow> atom list" where
  \<open>field_pattern name =
     [LitCI name, OptLit ''"'', Star is_space, Lit '':'', Star is_space, Lit ''"'',
      GroupOpen, Plus not_quote, GroupClose, Lit ''"'']\<close>

text \<open>Line 375: \<^verbatim>\<open>```(?:latex)?\s*([\s\S]*?)```\<close>.\<close>

definition code_block_latex_pattern :: "atom list" where
  "code_block_latex_pattern =
     [Lit ''```'', OptLit ''latex'', Star is_space, GroupOpen, LazyStar any_char, GroupClose,
      Lit ''```'']"


section \<open>Exceptions and their classification\<close>

text \<open>An exception is its class name and its message \<open>str(e)\<close>. Only instances of
  \<open>Exception\<close> are modelled; they are what the handlers of the script catch.\<close>

datatype exn = Exn (cls: string) (msg: string)

text \<open>The test of line 193, negated: the error is a quota error. Lines 383 and 510
  make the same test.\<close>

definition quota_error :: "exn \<Rightarrow> bool" where
  "quota_error e \<longleftrightarrow>
     contains ''429 Resource has been exhausted'' (msg e) \<or> contains ''quota'' (lower (msg e))"

text \<open>The test of lines 219 to 222, negated: the fallback loop goes on to the next
  model.\<close>

definition fallback_continues :: "exn \<Rightarrow> bool" where
  "fallback_continues e \<longleftrightarrow>
     contains ''429 Resource has been exhausted'' (msg e) \<or> contains ''quota'' (lower (msg e))
     \<or> contains ''404'' (msg e) \<or> contains ''not found'' (lower (msg e))"


section \<open>JSON values and \<open>json.loads\<close>\<close>

text \<open>
  What \<open>json.loads\<close> returns: \<open>None\<close>, a \<open>bool\<close>, an \<open>int\<close>, a \<open>float\<close>, a \<open>str\<close>, a
  \<open>list\<close> or a \<open>dict\<close>. A \<open>float\<close> is kept as the decimal number that was written,
  \<open>JFloat m e\<close> standing for \<open>m * 10 ^ e\<close>, and \<open>JNaN\<close>, \<open>JInf\<close> are the constants
  \<open>NaN\<close>, \<open>Infinity\<close> and \<open>-Infinity\<close>. A \<open>dict\<close> is the list of its members as
  written; a key written twice has the value written last.
\<close>

datatype json =
    JNull
  | JBool bool
  | JInt int
  | JFloat int int
  | JNaN
  | JInf bool
  | JStr pystr
  | JArr "json list"
  | JObj "(pystr \<times> json) list"

text \<open>
  The truth value Python gives a decoded value in \<open>if not extracted_info\<close>. A
  \<open>float\<close> is false when it is zero; the conversion of the written number rounds
  to the nearest double, so the double is zero exactly when the number is at most
  \<open>2 ^ -1075\<close> in magnitude, half of the least positive double.
\<close>

fun py_truthy :: "json \<Rightarrow> bool" where
  "py_truthy JNull = False"
| "py_truthy (JBool b) = b"
| "py_truthy (JInt i) = (i \<noteq> 0)"
| "py_truthy (JFloat m e) =
     (if 0 \<le> e then m \<noteq> 0 else 10 ^ nat (- e) < \<bar>m\<bar> * 2 ^ 1075)"
| "py_truthy JNaN = True"
| "py_truthy (JInf b) = True"
| "py_truthy (JStr s) = (s \<noteq> [])"
| "py_truthy (JArr xs) = (xs \<noteq> [])"
| "py_truthy (JObj kvs) = (kvs \<noteq> [])"

text \<open>\<open>d.get(key, default)\<close> on a decoded \<open>dict\<close>.\<close>

definition dict_get :: "(pystr \<times> json) list \<Rightarrow> pystr \<Rightarrow> json \<Rightarrow> json" where
  "dict_get kvs key dflt = (case map_of (rev kvs) key of Some v \<Rightarrow> v | None \<Rightarrow> dflt)"

text \<open>
  The outcome of one call of \<open>json.loads\<close>: the decoded value, a
  \<open>JSONDecodeError\<close> (its message is only ever printed), or another exception.
  The functions of the extractor take the decoder as a parameter \<open>loads\<close>, so what
  is proved of them holds for every behaviour of the decoder.
\<close>

datatype decode_result = Decoded json | DecodeError | Raised exn

text \<open>
  \<open>json_loads\<close> below is the decoder of the standard library on texts of code
  points below 256: the grammar of \<open>json.decoder\<close> and \<open>json.scanner\<close> with the
  default settings (strict strings, the constants \<open>NaN\<close>, \<open>Infinity\<close> and
  \<open>-Infinity\<close> accepted). The limits of the interpreter on recursion depth and on
  the number of digits of an \<open>int\<close> are not modelled.
\<close>

definition json_ws :: "char \<Rightarrow> bool" where
  "json_ws c \<longleftrightarrow> c = CHR '' '' \<or> c = CHR 0x09 \<or> c = CHR 0x0A \<or> c = CHR 0x0D"

definition skip_ws :: "string \<Rightarrow> string" where
  "skip_ws s = dropWhile json_ws s"

definition is_digit :: "char \<Rightarrow> bool" where
  "is_digit c \<longleftrightarrow> 48 \<le> (of_char c :: nat) \<and> (of_char c :: nat) \<le> 57"

definition digit_val :: "char \<Rightarrow> nat" where
  "digit_val c = of_char c - 48"

text \<open>The value of one hexadecimal digit, if it is one.\<close>

definition hex_val :: "char \<Rightarrow> nat option" where
  "hex_val c =
     (let n = (of_char c :: nat)
      in if 48 \<le> n \<and> n \<le> 57 then Some (n - 48)
         else if 65 \<le> n \<and> n \<le> 70 then Some (n - 55)
         else if 97 \<le> n \<and> n \<le> 102 then Some (n - 87)
         else None)"

text \<open>The code point written by the four digits after \<open>\u\<close>.\<close>

definition hex4 :: "char \<Rightarrow> char \<Rightarrow> char \<Rightarrow> char \<Rightarrow> nat option" where
  "hex4 a b c d =
     (case (hex_val a, hex_val b, hex_val c, hex_val d) of
        (Some x3, Some x2, Some x1, Some x0) \<Rightarrow> Some (x3 * 4096 + x2 * 256 + x1 * 16 + x0)
      | _ \<Rightarrow> None)"

text \<open>
  \<open>scanstring\<close>, from behind the opening quote: the decoded string and the text
  behind the closing quote. An escape \<open>\uXXXX\<close> of a high surrogate that is
  followed by the escape of a low surrogate makes one code point with it; the
  escape that follows a high surrogate must be well formed in any case.
\<close>

definition escape_char :: "char \<Rightarrow> nat option" where
  "escape_char e =
     map_of [(CHR 0x22, 34), (CHR 0x5C, 92), (CHR ''/'', 47), (CHR ''b'', 8), (CHR ''f'', 12),
             (CHR ''n'', 10), (CHR ''r'', 13), (CHR ''t'', 9)] e"

definition is_high_surrogate :: "nat \<Rightarrow> bool" where
  "is_high_surrogate n \<longleftrightarrow> 55296 \<le> n \<and> n \<le> 56319"

definition is_low_surrogate :: "nat \<Rightarrow> bool" where
  "is_low_surrogate n \<longleftrightarrow> 56320 \<le> n \<and> n \<le> 57343"

definition join_surrogates :: "nat \<Rightarrow> nat \<Rightarrow> nat" where
  "join_surrogates hi lo = 65536 + ((hi - 55296) * 1024 + (lo - 56320))"

definition put :: "nat \<Rightarrow> (pystr \<times> string) option \<Rightarrow> (pystr \<times> string) option" where
  "put n x = map_option (\<lambda>(str, rest). (n # str, rest)) x"

fun scan_string :: "string \<Rightarrow> (pystr \<times> string) option" where
  "scan_string [] = None"
| "scan_string (c # cs) =
     (if c = CHR 0x22 then Some ([], cs)
      else if c = CHR 0x5C then
        (case cs of
           [] \<Rightarrow> None
         | e # r \<Rightarrow>
             (if e = CHR ''u'' then
                (case r of
                   a # b # c # d # r' \<Rightarrow>
                     (case hex4 a b c d of
                        None \<Rightarrow> None
                      | Some n \<Rightarrow>
                          (if is_high_surrogate n \<and> prefix [CHR 0x5C, CHR ''u''] r' then
                             (case r' of
                                bs # u # a2 # b2 # c2 # d2 # r'' \<Rightarrow>
                                  (case hex4 a2 b2 c2 d2 of
                                     None \<Rightarrow> None
                                   | Some n2 \<Rightarrow>
                                       (if is_low_surrogate n2
                                        then put (join_surrogates n n2) (scan_string r'')
                                        else put n (scan_string r')))
                              | _ \<Rightarrow> None)
                           else put n (scan_string r')))
                 | _ \<Rightarrow> None)
              else
                (case escape_char e of
                   None \<Rightarrow> None
                 | Some n \<Rightarrow> put n (scan_string r))))
      else if (of_char c :: nat) < 32 then None
      else put (of_char c) (scan_string cs))"

text \<open>A run of digits read as a number in base ten, with how many there were.\<close>

definition digits_value :: "string \<Rightarrow> nat" where
  "digits_value ds = foldl (\<lambda>acc d. 10 * acc + digit_val d) 0 ds"

text \<open>
  \<open>NUMBER_RE\<close>: \<^verbatim>\<open>(-?(?:0|[1-9][0-9]*))(\.[0-9]+)?([eE][-+]?[0-9]+)?\<close>, matched at the
  start of the text. With neither fraction nor exponent the number is an \<open>int\<close>,
  otherwise a \<open>float\<close>.
\<close>

definition scan_number :: "string \<Rightarrow> (json \<times> string) option" where
  "scan_number s =
     (let neg = (s \<noteq> [] \<and> hd s = CHR ''-'');
          s1 = (if neg then tl s else s);
          ds = (if s1 \<noteq> [] \<and> hd s1 = CHR ''0'' then ''0'' else takeWhile is_digit s1);
          s2 = drop (length ds) s1;
          fs = (if s2 \<noteq> [] \<and> hd s2 = CHR ''.'' then takeWhile is_digit (tl s2) else []);
          s3 = (if fs = [] then s2 else drop (Suc (length fs)) s2);
          has_e = (s3 \<noteq> [] \<and> (hd s3 = CHR ''e'' \<or> hd s3 = CHR ''E''));
          s4 = (if has_e then tl s3 else s3);
          eneg = (s4 \<noteq> [] \<and> hd s4 = CHR ''-'');
          s5 = (if s4 \<noteq> [] \<and> (hd s4 = CHR ''-'' \<or> hd s4 = CHR ''+'') then tl s4 else s4);
          es = (if has_e then takeWhile is_digit s5 else []);
          s6 = (if es = [] then s3 else drop (length es) s5);
          sgn = (if neg then - 1 else 1 :: int)
      in if ds = [] then None
         else if fs = [] \<and> es = [] then Some (JInt (sgn * int (digits_value ds)), s6)
         else Some (JFloat (sgn * int (digits_value (ds @ fs)))
                      ((if eneg then - int (digits_value es) else int (digits_value es))
                        - int (length fs)), s6))"

text \<open>
  The scanner, \<open>_scan_once\<close> with \<open>JSONObject\<close> and \<open>JSONArray\<close>. The first argument
  bounds the depth of the calls and goes down by one at each. \<open>scan_value\<close> is
  entered with a bound above twice the length of its text, the other two with a
  bound more than one above it; a call made at once, on the same text, takes one
  from the bound, and any other is made with at least one character gone, so the
  calls keep this and the bound is not used up. \<open>scan_members\<close> starts at the
  quote of a key, \<open>scan_elements\<close> at a value.
\<close>

fun scan_value :: "nat \<Rightarrow> string \<Rightarrow> (json \<times> string) option"
  and scan_members :: "nat \<Rightarrow> string \<Rightarrow> ((pystr \<times> json) list \<times> string) option"
  and scan_elements :: "nat \<Rightarrow> string \<Rightarrow> (json list \<times> string) option" where
  "scan_value 0 s = None"
| "scan_value (Suc k) s =
     (case s of
        [] \<Rightarrow> None
      | c # cs \<Rightarrow>
          (if c = CHR 0x22 then map_option (\<lambda>(str, rest). (JStr str, rest)) (scan_string cs)
           else if c = CHR ''{'' then
             (case skip_ws cs of
                [] \<Rightarrow> None
              | d # ds \<Rightarrow>
                  (if d = CHR ''}'' then Some (JObj [], ds)
                   else map_option (\<lambda>(kvs, rest). (JObj kvs, rest)) (scan_members k (d # ds))))
           else if c = CHR ''['' then
             (case skip_ws cs of
                [] \<Rightarrow> None
              | d # ds \<Rightarrow>
                  (if d = CHR '']'' then Some (JArr [], ds)
                   else map_option (\<lambda>(xs, rest). (JArr xs, rest)) (scan_elements k (d # ds))))
           else if prefix ''null'' s then Some (JNull, drop 4 s)
           else if prefix ''true'' s then Some (JBool True, drop 4 s)
           else if prefix ''false'' s then Some (JBool False, drop 5 s)
           else (case scan_number s of
                   Some x \<Rightarrow> Some x
                 | None \<Rightarrow>
                     (if prefix ''NaN'' s then Some (JNaN, drop 3 s)
                      else if prefix ''Infinity'' s then Some (JInf True, drop 8 s)
                      else if prefix ''-Infinity'' s then Some (JInf False, drop 9 s)
                      else None))))"
| "scan_members 0 s = None"
| "scan_members (Suc k) s =
     (case s of
        [] \<Rightarrow> None
      | c # cs \<Rightarrow>
          (if c \<noteq> CHR 0x22 then None
           else
             (case scan_string cs of
                None \<Rightarrow> None
              | Some (key, r1) \<Rightarrow>
                  (case skip_ws r1 of
                     [] \<Rightarrow> None
                   | c2 # r2 \<Rightarrow>
                       (if c2 \<noteq> CHR '':'' then None
                        else
                          (case scan_value k (skip_ws r2) of
                             None \<Rightarrow> None
                           | Some (v, r3) \<Rightarrow>
                               (case skip_ws r3 of
                                  [] \<Rightarrow> None
                                | c4 # r4 \<Rightarrow>
                                    (if c4 = CHR ''}'' then Some ([(key, v)], r4)
                                     else if c4 = CHR '','' then
                                       map_option (\<lambda>(kvs, rest). ((key, v) # kvs, rest))
                                         (scan_members k (skip_ws r4))
                                     else None))))))))"
| "scan_elements 0 s = None"
| "scan_elements (Suc k) s =
     (case scan_value k s of
        None \<Rightarrow> None
      | Some (v, r1) \<Rightarrow>
          (case skip_ws r1 of
             [] \<Rightarrow> None
           | c2 # r2 \<Rightarrow>
               (if c2 = CHR '']'' then Some ([v], r2)
                else if c2 = CHR '','' then
                  map_option (\<lambda>(xs, rest). (v # xs, rest)) (scan_elements k (skip_ws r2))
                else None)))"

text \<open>\<open>JSONDecoder.decode\<close>: white space, one value, white space, and nothing more.\<close>

definition json_loads :: "string \<Rightarrow> decode_result" where
  "json_loads s =
     (case scan_value (Suc (2 * length s)) (skip_ws s) of
        None \<Rightarrow> DecodeError
      | Some (v, rest) \<Rightarrow> (if skip_ws rest = [] then Decoded v else DecodeError))"


section \<open>Model selection: \<open>list_available_models\<close>\<close>

text \<open>A function of the script either returns or ends the process by
  \<open>sys.exit\<close>.\<close>

datatype 'a outcome = Returned 'a | Exited nat

definition preferred_models :: "string list" where
  "preferred_models = [''models/gemini-1.5-flash'', ''models/gemini-pro'', ''models/gemini-1.5-pro'']"

text \<open>Lines 96 to 101: the loop over the preferred names.\<close>

fun first_preferred :: "string list \<Rightarrow> string list \<Rightarrow> string option" where
  "first_preferred available_models [] = None"
| "first_preferred available_models (preferred # rest) =
     (if preferred \<in> set available_models then Some (last_segment preferred)
      else first_preferred available_models rest)"

text \<open>Lines 105 to 110: the loop over the names the provider listed.\<close>

fun first_alternative :: "string list \<Rightarrow> string option" where
  "first_alternative [] = None"
| "first_alternative (name # rest) =
     (if contains ''gemini'' name \<and> \<not> contains ''vision'' name then Some (last_segment name)
      else first_alternative rest)"

text \<open>
  The argument is what \<open>genai.list_models()\<close> and the loop reading the names
  yield: the names in order, or the exception raised on the way.
\<close>

definition list_available_models :: "exn + string list \<Rightarrow> string outcome" where
  "list_available_models listing =
     (case listing of
        Inl e \<Rightarrow> Returned ''gemini-1.5-pro''
      | Inr available_models \<Rightarrow>
          (case first_preferred available_models preferred_models of
             Some short_name \<Rightarrow> Returned short_name
           | None \<Rightarrow>
               (case first_alternative available_models of
                  Some short_name \<Rightarrow> Returned short_name
                | None \<Rightarrow> Exited 1)))"

section \<open>The resilient invoker: \<open>retry_with_models\<close>\<close>

text \<open>
  A model handle; the only attribute the script reads is \<open>model_name\<close>, and
  \<open>hasattr(model, 'model_name')\<close> is \<open>model_name m \<noteq> None\<close>.
\<close>

datatype model = Model (model_name: "string option")

text \<open>
  The provider is outside the program. Its state is a value of an arbitrary type
  \<open>'w\<close> that every call takes and returns, so a call may answer differently each
  time. The operation \<open>func\<close> (with its further arguments fixed) has type
  \<open>model \<Rightarrow> 'w \<Rightarrow> (exn + 'a) \<times> 'w\<close> and the constructor \<open>genai.GenerativeModel\<close> has
  type \<open>string \<Rightarrow> 'w \<Rightarrow> (exn + model) \<times> 'w\<close>; \<open>Inl e\<close> is the exception raised.

  The invoker also returns the list of what it did, in order: the handles it asked
  for, the calls of the operation, and the exceptions its handlers caught.
\<close>

datatype event = Construct string | Invoke model | Caught exn

definition FALLBACK_MODELS :: "string list" where
  "FALLBACK_MODELS =
    [''gemini-2.0-pro-exp-02-05'',
     ''gemini-2.0-pro-exp'',
     ''gemini-1.5-pro-latest'',
     ''gemini-1.5-pro'',
     ''gemini-1.5-pro-002'',
     ''gemini-1.5-pro-001'',
     ''gemini-2.0-flash'',
     ''gemini-2.0-flash-001'',
     ''gemini-1.5-flash-latest'',
     ''gemini-1.5-flash'',
     ''gemini-1.5-flash-002'',
     ''gemini-1.5-flash-001'',
     ''gemini-1.5-flash-001-tuning'',
     ''gemini-2.0-flash-lite'',
     ''gemini-2.0-flash-lite-001'',
     ''gemini-2.0-flash-lite-preview'',
     ''gemini-2.0-flash-lite-preview-02-05'',
     ''gemini-2.0-flash-exp'',
     ''gemini-exp-1206'',
     ''learnlm-1.5-pro-experimental'',
     ''gemini-2.0-flash-thinking-exp'',
     ''gemini-2.0-flash-thinking-exp-1219'',
     ''gemini-2.0-flash-thinking-exp-01-21'']"

text \<open>Lines 179 to 187: the names recorded for the loaded model.\<close>

definition initial_tried :: "model \<Rightarrow> string set" where
  "initial_tried m =
     (case model_name m of
        None \<Rightarrow> {}
      | Some n \<Rightarrow>
          (if prefix ''models/'' n then {n, last_segment n} else {n, ''models/'' @ n}))"

definition emit :: "event list \<Rightarrow> 'r \<times> event list \<times> 'w \<Rightarrow> 'r \<times> event list \<times> 'w" where
  "emit evs x = (case x of (r, tr, w) \<Rightarrow> (r, evs @ tr, w))"

text \<open>
  Lines 201 to 227: the loop over the catalog, with the set \<open>tried_models\<close> and
  \<open>last_exception\<close>; leaving the loop, at its end or by \<open>break\<close>, raises
  \<open>last_exception\<close>.
\<close>

fun fallback_loop ::
  "(string \<Rightarrow> 'w \<Rightarrow> (exn + model) \<times> 'w) \<Rightarrow> (model \<Rightarrow> 'w \<Rightarrow> (exn + 'a) \<times> 'w) \<Rightarrow>
   string set \<Rightarrow> exn \<Rightarrow> string list \<Rightarrow> 'w \<Rightarrow> (exn + 'a) \<times> event list \<times> 'w" where
  "fallback_loop mk func tried last_exception [] w = (Inl last_exception, [], w)"
| "fallback_loop mk func tried last_exception (name # names) w =
     (if name \<in> tried \<or> (''models/'' @ name) \<in> tried
      then fallback_loop mk func tried last_exception names w
      else
        let tried' = insert (''models/'' @ name) (insert name tried) in
        (case mk name w of
           (Inl e, w1) \<Rightarrow>
             emit [Construct name, Caught e]
               (if fallback_continues e then fallback_loop mk func tried' e names w1
                else (Inl e, [], w1))
         | (Inr fallback_model, w1) \<Rightarrow>
             (case func fallback_model w1 of
                (Inr result, w2) \<Rightarrow> (Inr result, [Construct name, Invoke fallback_model], w2)
              | (Inl e, w2) \<Rightarrow>
                  emit [Construct name, Invoke fallback_model, Caught e]
                    (if fallback_continues e then fallback_loop mk func tried' e names w2
                     else (Inl e, [], w2)))))"

definition retry_with_models ::
  "(string \<Rightarrow> 'w \<Rightarrow> (exn + model) \<times> 'w) \<Rightarrow> (model \<Rightarrow> 'w \<Rightarrow> (exn + 'a) \<times> 'w) \<Rightarrow>
   model \<Rightarrow> 'w \<Rightarrow> (exn + 'a) \<times> event list \<times> 'w" where
  "retry_with_models mk func m w =
     (case func m w of
        (Inr result, w1) \<Rightarrow> (Inr result, [Invoke m], w1)
      | (Inl e, w1) \<Rightarrow>
          (if \<not> quota_error e then (Inl e, [Invoke m, Caught e], w1)
           else emit [Invoke m, Caught e]
                  (fallback_loop mk func (initial_tried m) e FALLBACK_MODELS w1)))"

section \<open>The field extractor: \<open>extract_company_and_position\<close>\<close>

text \<open>
  A prompt is kept as the values its text is formatted from; the wording around
  them is fixed. The call \<open>model.generate_content(prompt)\<close> is the parameter
  \<open>gen\<close>: it raises, or returns a response that is \<open>None\<close> or has the text given.
  Reading \<open>response.text\<close> is part of the call.
\<close>

datatype prompt = ExtractPrompt string | TailorPrompt string string json json

type_synonym 'w provider = "model \<Rightarrow> prompt \<Rightarrow> 'w \<Rightarrow> (exn + string option) \<times> 'w"

definition unknown_company :: json where
  "unknown_company = JStr (code_points ''Unknown Company'')"

definition unknown_position :: json where
  "unknown_position = JStr (code_points ''Unknown Position'')"

text \<open>\<open>type(v).__name__\<close> of a decoded value.\<close>

fun type_name :: "json \<Rightarrow> string" where
  "type_name JNull = ''NoneType''"
| "type_name (JBool b) = ''bool''"
| "type_name (JInt i) = ''int''"
| "type_name (JFloat m e) = ''float''"
| "type_name JNaN = ''float''"
| "type_name (JInf b) = ''float''"
| "type_name (JStr s) = ''str''"
| "type_name (JArr xs) = ''list''"
| "type_name (JObj kvs) = ''dict''"

text \<open>The \<open>AttributeError\<close> of reading an attribute a value does not have.\<close>

definition no_attribute :: "string \<Rightarrow> string \<Rightarrow> exn" where
  "no_attribute tname attr =
     Exn ''AttributeError''
       ([CHR 0x27] @ tname @ [CHR 0x27] @ '' object has no attribute '' @ [CHR 0x27] @ attr
          @ [CHR 0x27])"

definition falsy :: "json option \<Rightarrow> bool" where
  "falsy info = (case info of None \<Rightarrow> True | Some v \<Rightarrow> \<not> py_truthy v)"

text \<open>
  What a \<open>try\<close> around \<open>json.loads\<close> leaves in \<open>extracted_info\<close>, which held
  \<open>info\<close> before: the decoded value; \<open>info\<close> when the exception is one the handler
  names in \<open>caught\<close> (a \<open>JSONDecodeError\<close> always is); the exception otherwise.
\<close>

definition try_loads ::
  "(string \<Rightarrow> decode_result) \<Rightarrow> string list \<Rightarrow> string \<Rightarrow> json option \<Rightarrow> exn + json option" where
  "try_loads loads caught json_text info =
     (case loads json_text of
        Decoded v \<Rightarrow> Inr (Some v)
      | DecodeError \<Rightarrow> Inr info
      | Raised e \<Rightarrow> (if cls e \<in> set caught then Inr info else Inl e))"

text \<open>Lines 446 to 454, method 1: the first fenced block.\<close>

definition method1 :: "(string \<Rightarrow> decode_result) \<Rightarrow> string \<Rightarrow> exn + json option" where
  "method1 loads result_text =
     (if contains ''```'' result_text then
        (case rx_search code_block_json_pattern result_text of
           Some (g0, g1) \<Rightarrow>
             try_loads loads [''JSONDecodeError'', ''AttributeError''] (strip g1) None
         | None \<Rightarrow> Inr None)
      else Inr None)"

text \<open>Lines 457 to 467, method 2: a brace span holding both field names.\<close>

definition method2 ::
  "(string \<Rightarrow> decode_result) \<Rightarrow> string \<Rightarrow> json option \<Rightarrow> exn + json option" where
  "method2 loads result_text info =
     (if falsy info then
        (case rx_search json_pattern result_text of
           Some (g0, g1) \<Rightarrow>
             try_loads loads [''JSONDecodeError'', ''AttributeError''] (strip g0) info
         | None \<Rightarrow> Inr info)
      else Inr info)"

text \<open>Line 473: the text method 3 decodes.\<close>

definition cleaned_text :: "string \<Rightarrow> string" where
  "cleaned_text result_text = strip (py_replace ''json'' [] (py_replace ''```'' [] result_text))"

text \<open>Lines 470 to 477, method 3: the whole reply, cleaned.\<close>

definition method3 ::
  "(string \<Rightarrow> decode_result) \<Rightarrow> string \<Rightarrow> json option \<Rightarrow> exn + json option" where
  "method3 loads result_text info =
     (if falsy info then try_loads loads [''JSONDecodeError''] (cleaned_text result_text) info
      else Inr info)"

text \<open>Lines 443 to 477: \<open>extracted_info\<close> after the three methods.\<close>

definition recover_json :: "(string \<Rightarrow> decode_result) \<Rightarrow> string \<Rightarrow> exn + json option" where
  "recover_json loads result_text =
     (case method1 loads result_text of
        Inl e \<Rightarrow> Inl e
      | Inr info1 \<Rightarrow>
          (case method2 loads result_text info1 of
             Inl e \<Rightarrow> Inl e
           | Inr info2 \<Rightarrow> method3 loads result_text info2))"

text \<open>Lines 490 to 507: the two scans of the raw reply.\<close>

definition regex_fallback :: "string \<Rightarrow> json \<times> json" where
  "regex_fallback result_text =
     ((case rx_search (field_pattern ''company'') result_text of
         Some (g0, g1) \<Rightarrow> JStr (code_points g1) | None \<Rightarrow> unknown_company),
      (case rx_search (field_pattern ''position'') result_text of
         Some (g0, g1) \<Rightarrow> JStr (code_points g1) | None \<Rightarrow> unknown_position))"

text \<open>
  Lines 436 to 507, the body of the \<open>try\<close> of \<open>_extract_info\<close> once the reply has a
  text: \<open>Inl e\<close> is an exception leaving the body. A true \<open>extracted_info\<close> that
  is no \<open>dict\<close> has no \<open>get\<close>.
\<close>

definition parse_reply :: "(string \<Rightarrow> decode_result) \<Rightarrow> string \<Rightarrow> exn + json \<times> json" where
  "parse_reply loads text =
     (let result_text = strip text in
      case recover_json loads result_text of
        Inl e \<Rightarrow> Inl e
      | Inr extracted_info \<Rightarrow>
          (if \<not> falsy extracted_info then
             (case extracted_info of
                Some (JObj kvs) \<Rightarrow>
                  Inr (dict_get kvs (code_points ''company'') unknown_company,
                       dict_get kvs (code_points ''position'') unknown_position)
              | Some v \<Rightarrow> Inl (no_attribute (type_name v) ''get'')
              | None \<Rightarrow> Inr (regex_fallback result_text))
           else Inr (regex_fallback result_text)))"

text \<open>Lines 509 to 515, and 382 to 388 with its own default: the handler around
  the body of an operation.\<close>

definition reraise_quota :: "'a \<Rightarrow> exn \<Rightarrow> exn + 'a" where
  "reraise_quota dflt e = (if quota_error e then Inl e else Inr dflt)"

text \<open>Lines 431 to 515: \<open>_extract_info\<close> from the response on.\<close>

definition extract_reply ::
  "(string \<Rightarrow> decode_result) \<Rightarrow> string option \<Rightarrow> exn + json \<times> json" where
  "extract_reply loads response =
     (case response of
        None \<Rightarrow> Inr (unknown_company, unknown_position)
      | Some text \<Rightarrow>
          (if text = [] then Inr (unknown_company, unknown_position)
           else (case parse_reply loads text of
                   Inl e \<Rightarrow> reraise_quota (unknown_company, unknown_position) e
                 | Inr found \<Rightarrow> Inr found)))"

definition extract_info ::
  "(string \<Rightarrow> decode_result) \<Rightarrow> 'w provider \<Rightarrow> prompt \<Rightarrow> model \<Rightarrow> 'w \<Rightarrow>
   (exn + json \<times> json) \<times> 'w" where
  "extract_info loads gen prompt_text m w =
     (case gen m prompt_text w of
        (Inl e, w1) \<Rightarrow> (reraise_quota (unknown_company, unknown_position) e, w1)
      | (Inr response, w1) \<Rightarrow> (extract_reply loads response, w1))"

text \<open>Lines 517 to 530.\<close>

definition extract_company_and_position ::
  "(string \<Rightarrow> decode_result) \<Rightarrow> 'w provider \<Rightarrow> (string \<Rightarrow> 'w \<Rightarrow> (exn + model) \<times> 'w) \<Rightarrow>
   model \<Rightarrow> string \<Rightarrow> 'w \<Rightarrow> (json \<times> json) \<times> event list \<times> 'w" where
  "extract_company_and_position loads gen mk m jd_content w =
     (case retry_with_models mk (extract_info loads gen (ExtractPrompt jd_content)) m w of
        (Inr found, tr, w1) \<Rightarrow> (found, tr, w1)
      | (Inl e, tr, w1) \<Rightarrow> ((unknown_company, unknown_position), tr, w1))"

section \<open>The document transform: \<open>generate_tailored_content\<close>\<close>

text \<open>Lines 373 to 380: the reply without its code fence.\<close>

definition strip_code_block :: "string \<Rightarrow> string" where
  "strip_code_block tailored_content =
     (if contains ''```'' tailored_content then
        (case rx_search code_block_latex_pattern tailored_content of
           Some (g0, g1) \<Rightarrow> strip g1
         | None \<Rightarrow> strip (py_replace ''```'' [] (py_replace ''```latex'' [] tailored_content)))
      else tailored_content)"

text \<open>Lines 290 to 388: \<open>_generate_content\<close>. A response \<open>None\<close> has no \<open>text\<close>.\<close>

definition generate_content ::
  "'w provider \<Rightarrow> string \<Rightarrow> string \<Rightarrow> json \<Rightarrow> json \<Rightarrow> model \<Rightarrow> 'w \<Rightarrow> (exn + string) \<times> 'w" where
  "generate_content gen resume_content jd_content company position m w =
     (case gen m (TailorPrompt resume_content jd_content company position) w of
        (Inl e, w1) \<Rightarrow> (reraise_quota resume_content e, w1)
      | (Inr None, w1) \<Rightarrow> (reraise_quota resume_content (no_attribute ''NoneType'' ''text''), w1)
      | (Inr (Some text), w1) \<Rightarrow> (Inr (strip_code_block text), w1))"

text \<open>Lines 390 to 395.\<close>

definition generate_tailored_content ::
  "'w provider \<Rightarrow> (string \<Rightarrow> 'w \<Rightarrow> (exn + model) \<times> 'w) \<Rightarrow> model \<Rightarrow> string \<Rightarrow> string \<Rightarrow>
   json \<Rightarrow> json \<Rightarrow> 'w \<Rightarrow> string \<times> event list \<times> 'w" where
  "generate_tailored_content gen mk m resume_content jd_content company position w =
     (case retry_with_models mk (generate_content gen resume_content jd_content company position)
             m w of
        (Inr tailored, tr, w1) \<Rightarrow> (tailored, tr, w1)
      | (Inl e, tr, w1) \<Rightarrow> (resume_content, tr, w1))"

section \<open>The orchestrator: \<open>main\<close>\<close>

text \<open>
  \<open>main\<close> from line 571 on, with the model loaded and both files read. The
  command-line values are \<open>None\<close> or a string; \<open>JNull\<close> stands for \<open>None\<close>, so the
  variables \<open>company\<close> and \<open>position\<close> are values of type \<open>json\<close>. The header
  formats them with \<open>str\<close>, which leaves a string as it is; what \<open>str\<close> makes of
  another value is the parameter \<open>fmt\<close>. \<open>ts\<close> is the text \<open>time.strftime\<close> returns.
  Neither \<open>extract_company_and_position\<close> nor \<open>generate_tailored_content\<close> lets
  an exception out, so the handlers of lines 592 and 615 are never entered;
  \<open>extraction_success\<close> only decides a message. The result is the text handed to
  \<open>save_tailored_resume\<close>, a list of code points since the company and the
  position may come out of \<open>json.loads\<close>, with the list of the stages that ran.
\<close>

datatype stage = Extraction "event list" | Tailoring "event list"

definition py_str :: "(json \<Rightarrow> pystr) \<Rightarrow> json \<Rightarrow> pystr" where
  "py_str fmt v = (case v of JStr s \<Rightarrow> s | _ \<Rightarrow> fmt v)"

definition header_comment :: "pystr \<Rightarrow> pystr \<Rightarrow> string \<Rightarrow> pystr" where
  "header_comment company position ts =
     code_points ''% Tailored resume for '' @ company @ code_points '' - '' @ position
     @ code_points [CHR 0x0A]
     @ code_points (''% Auto-tailored using Gemini AI on '' @ ts @ [CHR 0x0A, CHR 0x0A])"

definition arg_value :: "string option \<Rightarrow> json" where
  "arg_value a = (case a of None \<Rightarrow> JNull | Some s \<Rightarrow> JStr (code_points s))"

text \<open>Lines 572 to 602: the company and the position \<open>main\<close> goes on with.\<close>

definition resolve_fields ::
  "(string \<Rightarrow> decode_result) \<Rightarrow> 'w provider \<Rightarrow> (string \<Rightarrow> 'w \<Rightarrow> (exn + model) \<times> 'w) \<Rightarrow>
   model \<Rightarrow> string \<Rightarrow> string option \<Rightarrow> string option \<Rightarrow> 'w \<Rightarrow>
   json \<times> json \<times> stage list \<times> 'w" where
  "resolve_fields loads gen mk m jd_content args_company args_position w =
     (let company0 = arg_value args_company;
          position0 = arg_value args_position
      in if company0 = JNull \<or> position0 = JNull then
           (case extract_company_and_position loads gen mk m jd_content w of
              ((extracted_company, extracted_position), tr, w1) \<Rightarrow>
                (let company1 = (if company0 = JNull then extracted_company else company0);
                     position1 = (if position0 = JNull then extracted_position else position0)
                 in (if company1 = JNull then unknown_company else company1,
                     if position1 = JNull then unknown_position else position1,
                     [Extraction tr], w1)))
         else (company0, position0, [], w))"

text \<open>Lines 604 to 624.\<close>

definition main_body ::
  "(string \<Rightarrow> decode_result) \<Rightarrow> (json \<Rightarrow> pystr) \<Rightarrow> 'w provider \<Rightarrow>
   (string \<Rightarrow> 'w \<Rightarrow> (exn + model) \<times> 'w) \<Rightarrow> model \<Rightarrow> string \<Rightarrow> string \<Rightarrow>
   string option \<Rightarrow> string option \<Rightarrow> string \<Rightarrow> 'w \<Rightarrow> pystr \<times> stage list \<times> 'w" where
  "main_body loads fmt gen mk m resume_content jd_content args_company args_position ts w =
     (case resolve_fields loads gen mk m jd_content args_company args_position w of
        (company, position, stages1, w1) \<Rightarrow>
          (case generate_tailored_content gen mk m resume_content jd_content company position w1 of
             (generated, tr2, w2) \<Rightarrow>
               (let tailored_content =
                      (if generated = [] \<or> generated = resume_content then resume_content
                       else generated)
                in (header_comment (py_str fmt company) (py_str fmt position) ts
                      @ code_points tailored_content,
                    stages1 @ [Tailoring tr2], w2))))"


section \<open>Notions used to state the properties\<close>

text \<open>The names the invoker asked a handle for, in order.\<close>

fun constructs :: "event list \<Rightarrow> string list" where
  "constructs [] = []"
| "constructs (Construct n # evs) = n # constructs evs"
| "constructs (_ # evs) = constructs evs"







text \<open>The classification as the specification words it, both patterns matched
  without regard to case.\<close>

definition matches_quota_pattern_ci :: "string \<Rightarrow> bool" where
  "matches_quota_pattern_ci s \<longleftrightarrow>
     contains (lower ''429 Resource has been exhausted'') (lower s) \<or> contains ''quota'' (lower s)"

text \<open>
  Stand-ins for the provider, with a counter of the calls as its state: an
  operation that raises the same exception on every model, a constructor that
  builds the handle of a name, one that raises instead, a provider that raises
  on every call, and one that answers every call with the same text.
\<close>

definition always_raises :: "exn \<Rightarrow> model \<Rightarrow> nat \<Rightarrow> (exn + string) \<times> nat" where
  "always_raises e m w = (Inl e, Suc w)"

definition make_handle :: "string \<Rightarrow> nat \<Rightarrow> (exn + model) \<times> nat" where
  "make_handle n w = (Inr (Model (Some (''models/'' @ n))), Suc w)"


definition provider_down :: "exn \<Rightarrow> nat provider" where
  "provider_down e m p w = (Inl e, Suc w)"


text \<open>\<open>str\<close> on the values that are no strings, for the stand-in runs: only the
  name of the type.\<close>

definition str_as_type_name :: "json \<Rightarrow> pystr" where
  "str_as_type_name v = code_points (type_name v)"


section \<open>Properties of the resilient invoker\<close>


lemma constructs_append: "constructs (xs @ ys) = constructs xs @ constructs ys"
  by (induction xs rule: constructs.induct) auto

lemma emit_simp: "emit evs (r, tr, w) = (r, evs @ tr, w)" by (simp add: emit_def)













lemma last_segment_no_slash: "CHR ''/'' \<notin> set (last_segment s)"
  unfolding last_segment_def using set_takeWhileD by fastforce

lemma last_segment_append:
  "CHR ''/'' \<notin> set a \<Longrightarrow> last_segment (p @ CHR ''/'' # a) = a"
proof -
  assume a: "CHR ''/'' \<notin> set a"
  have "takeWhile (\<lambda>c. c \<noteq> CHR ''/'') (rev a @ CHR ''/'' # rev p) = rev a"
    using a by (subst takeWhile_append2) auto
  then show ?thesis by (simp add: last_segment_def)
qed

lemma last_segment_models: "CHR ''/'' \<notin> set a \<Longrightarrow> last_segment (''models/'' @ a) = a"
  using last_segment_append[of a "''models''"] by simp

lemma skipped_prefixed:
  assumes p: "prefix ''models/'' n0" and np: "\<not> prefix ''models/'' a"
      and ns: "CHR ''/'' \<notin> set a"
      and sk: "a \<in> {n0, last_segment n0} \<or> (''models/'' @ a) \<in> {n0, last_segment n0}"
  shows "last_segment n0 = a"
proof -
  have 1: "a \<noteq> n0" using p np by blast
  have 2: "''models/'' @ a \<noteq> last_segment n0"
  proof
    assume "''models/'' @ a = last_segment n0"
    then have "set (''models/'' @ a) = set (last_segment n0)" by (rule arg_cong)
    moreover have "CHR ''/'' \<in> set (''models/'' @ a)" by simp
    ultimately show False using last_segment_no_slash[of n0] by blast
  qed
  have 3: "''models/'' @ a = n0 \<Longrightarrow> last_segment n0 = a"
    using last_segment_models[OF ns] by blast
  from sk 1 2 3 show ?thesis by blast
qed

lemma two_candidates:
  "(''gemini-2.0-pro-exp-02-05'' \<notin> initial_tried m \<and> ''models/gemini-2.0-pro-exp-02-05'' \<notin> initial_tried m)
   \<or> (''gemini-2.0-pro-exp'' \<notin> initial_tried m \<and> ''models/gemini-2.0-pro-exp'' \<notin> initial_tried m)"
proof (cases "model_name m")
  case None then show ?thesis by (simp add: initial_tried_def)
next
  case (Some n0)
  show ?thesis
  proof (cases "prefix ''models/'' n0")
    case False
    then show ?thesis using Some by (auto simp: initial_tried_def)
  next
    case True
    have T: "initial_tried m = {n0, last_segment n0}"
      using Some True by (simp add: initial_tried_def)
    show ?thesis
    proof (rule ccontr)
      assume "\<not> ?thesis"
      then have s1: "''gemini-2.0-pro-exp-02-05'' \<in> {n0, last_segment n0}
                  \<or> (''models/'' @ ''gemini-2.0-pro-exp-02-05'') \<in> {n0, last_segment n0}"
        and s2: "''gemini-2.0-pro-exp'' \<in> {n0, last_segment n0}
                  \<or> (''models/'' @ ''gemini-2.0-pro-exp'') \<in> {n0, last_segment n0}"
        unfolding T by auto
      have "last_segment n0 = ''gemini-2.0-pro-exp-02-05''"
        by (rule skipped_prefixed[OF True _ _ s1]) simp_all
      moreover have "last_segment n0 = ''gemini-2.0-pro-exp''"
        by (rule skipped_prefixed[OF True _ _ s2]) simp_all
      ultimately show False by simp
    qed
  qed
qed

lemma some_untried:
  "\<exists>n\<in>set FALLBACK_MODELS. n \<notin> initial_tried m \<and> (''models/'' @ n) \<notin> initial_tried m"
  using two_candidates[of m] by (auto simp: FALLBACK_MODELS_def)

lemma loop_constructs_nonempty:
  "\<exists>n\<in>set names. n \<notin> tried \<and> (''models/'' @ n) \<notin> tried \<Longrightarrow>
   constructs (fst (snd (fallback_loop mk func tried e names w))) \<noteq> []"
proof (induction names arbitrary: tried e w)
  case Nil then show ?case by simp
next
  case (Cons a ns)
  show ?case
  proof (cases "a \<in> tried \<or> (''models/'' @ a) \<in> tried")
    case True
    with Cons.prems have "\<exists>n\<in>set ns. n \<notin> tried \<and> (''models/'' @ n) \<notin> tried" by auto
    from Cons.IH[OF this] True show ?thesis by simp
  next
    case False
    then show ?thesis
      by (auto simp: Let_def emit_def split: prod.splits sum.splits)
  qed
qed

lemma constructs_mem: "n \<in> set (constructs tr) \<longleftrightarrow> Construct n \<in> set tr"
  by (induction tr rule: constructs.induct) auto

text \<open>
  Claim C6, amended. Whether an exception of the first call is retried depends on
  its message alone: \<open>retry_with_models\<close> goes on to a fallback model exactly when
  the message contains the phrase \<open>429 Resource has been exhausted\<close> as written,
  or contains \<open>quota\<close> in any mix of upper and lower case; any other message
  makes it raise the exception at once, with no fallback.
\<close>

theorem first_model_retry_classification:
  assumes "func m w = (Inl e, w1)"
  shows "((\<exists>n. Construct n \<in> set (fst (snd (retry_with_models mk func m w))))
           \<longleftrightarrow> contains ''429 Resource has been exhausted'' (msg e) \<or> contains ''quota'' (lower (msg e)))
       \<and> (\<not> (contains ''429 Resource has been exhausted'' (msg e) \<or> contains ''quota'' (lower (msg e)))
           \<longrightarrow> retry_with_models mk func m w = (Inl e, [Invoke m, Caught e], w1))"
proof (cases "quota_error e")
  case False
  then have "retry_with_models mk func m w = (Inl e, [Invoke m, Caught e], w1)"
    using assms by (simp add: retry_with_models_def)
  then show ?thesis using False by (simp add: quota_error_def)
next
  case True
  obtain r tr w' where L: "fallback_loop mk func (initial_tried m) e FALLBACK_MODELS w1 = (r, tr, w')"
    by (cases "fallback_loop mk func (initial_tried m) e FALLBACK_MODELS w1") auto
  have "constructs tr \<noteq> []"
    using loop_constructs_nonempty[OF some_untried[of m], where mk = mk and func = func
        and e = e and w = w1] L by simp
  then obtain n where "n \<in> set (constructs tr)" by (cases "constructs tr") auto
  then have "Construct n \<in> set tr" by (simp add: constructs_mem)
  moreover have "retry_with_models mk func m w = (r, [Invoke m, Caught e] @ tr, w')"
    using assms True L by (simp add: retry_with_models_def emit_def)
  ultimately show ?thesis using True by (auto simp: quota_error_def)
qed

theorem first_model_retry_classification_witness:
  "always_raises (Exn ''ResourceExhausted'' ''Quota exceeded'') (Model (Some ''gemini-1.5-flash'')) 0
     = (Inl (Exn ''ResourceExhausted'' ''Quota exceeded''), 1)
   \<and> (\<exists>n. Construct n \<in> set (fst (snd (retry_with_models make_handle
         (always_raises (Exn ''ResourceExhausted'' ''Quota exceeded''))
         (Model (Some ''gemini-1.5-flash'')) 0))))"
proof -
  have h: "always_raises (Exn ''ResourceExhausted'' ''Quota exceeded'') (Model (Some ''gemini-1.5-flash'')) 0
     = (Inl (Exn ''ResourceExhausted'' ''Quota exceeded''), 1)"
    by (simp add: always_raises_def)
  have q: "contains ''quota'' (lower (msg (Exn ''ResourceExhausted'' ''Quota exceeded'')))"
    by (simp add: lower_def lower_char_def)
  have "((\<exists>n. Construct n \<in> set (fst (snd (retry_with_models make_handle
            (always_raises (Exn ''ResourceExhausted'' ''Quota exceeded''))
            (Model (Some ''gemini-1.5-flash'')) 0))))
          \<longleftrightarrow> contains ''429 Resource has been exhausted'' (msg (Exn ''ResourceExhausted'' ''Quota exceeded''))
              \<or> contains ''quota'' (lower (msg (Exn ''ResourceExhausted'' ''Quota exceeded''))))
        \<and> (\<not> (contains ''429 Resource has been exhausted'' (msg (Exn ''ResourceExhausted'' ''Quota exceeded''))
              \<or> contains ''quota'' (lower (msg (Exn ''ResourceExhausted'' ''Quota exceeded''))))
           \<longrightarrow> retry_with_models make_handle
                 (always_raises (Exn ''ResourceExhausted'' ''Quota exceeded''))
                 (Model (Some ''gemini-1.5-flash'')) 0
               = (Inl (Exn ''ResourceExhausted'' ''Quota exceeded''),
                  [Invoke (Model (Some ''gemini-1.5-flash'')),
                   Caught (Exn ''ResourceExhausted'' ''Quota exceeded'')], 1))"
    using h by (rule first_model_retry_classification)
  with q h show ?thesis by blast
qed

text \<open>
  The claim C6 as worded matches the phrase without regard to case as well. The
  message \<open>429 resource has been exhausted\<close> matches so, and the invoker still
  raises it at once.
\<close>

theorem case_insensitive_phrase_counterexample:
  "matches_quota_pattern_ci ''429 resource has been exhausted''
   \<and> retry_with_models make_handle
        (always_raises (Exn ''ResourceExhausted'' ''429 resource has been exhausted''))
        (Model (Some ''gemini-1.5-flash'')) 0
      = (Inl (Exn ''ResourceExhausted'' ''429 resource has been exhausted''),
         [Invoke (Model (Some ''gemini-1.5-flash'')),
          Caught (Exn ''ResourceExhausted'' ''429 resource has been exhausted'')], 1)"
  by (simp add: matches_quota_pattern_ci_def retry_with_models_def always_raises_def
        quota_error_def lower_def lower_char_def)












text \<open>
  Claim C2. When the first call, on the loaded model, raises an exception whose
  message is not a quota error, \<open>retry_with_models\<close> raises that same exception,
  and all it did is that one call and catching its exception: no fallback handle
  is built and no fallback call is made.
\<close>

theorem retry_non_quota_propagates:
  assumes "func m w = (Inl e, w1)" and "\<not> quota_error e"
  shows "retry_with_models mk func m w = (Inl e, [Invoke m, Caught e], w1)"
  using assms by (simp add: retry_with_models_def)

theorem retry_non_quota_propagates_witness:
  "always_raises (Exn ''ValueError'' ''API key not valid'') (Model (Some ''gemini-1.5-flash'')) 0
     = (Inl (Exn ''ValueError'' ''API key not valid''), 1)
   \<and> \<not> quota_error (Exn ''ValueError'' ''API key not valid'')
   \<and> retry_with_models make_handle (always_raises (Exn ''ValueError'' ''API key not valid''))
         (Model (Some ''gemini-1.5-flash'')) 0
       = (Inl (Exn ''ValueError'' ''API key not valid''),
          [Invoke (Model (Some ''gemini-1.5-flash'')),
           Caught (Exn ''ValueError'' ''API key not valid'')], 1)"
proof -
  have h: "always_raises (Exn ''ValueError'' ''API key not valid'') (Model (Some ''gemini-1.5-flash'')) 0
     = (Inl (Exn ''ValueError'' ''API key not valid''), 1)"
    by (simp add: always_raises_def)
  have q: "\<not> quota_error (Exn ''ValueError'' ''API key not valid'')"
    by (simp add: quota_error_def lower_def lower_char_def)
  have "retry_with_models make_handle (always_raises (Exn ''ValueError'' ''API key not valid''))
         (Model (Some ''gemini-1.5-flash'')) 0
       = (Inl (Exn ''ValueError'' ''API key not valid''),
          [Invoke (Model (Some ''gemini-1.5-flash'')),
           Caught (Exn ''ValueError'' ''API key not valid'')], 1)"
    using h q by (rule retry_non_quota_propagates)
  with h q show ?thesis by blast
qed

section \<open>Properties of model selection\<close>

lemma first_preferred_find:
  "first_preferred av ps = map_option last_segment (find (\<lambda>p. p \<in> set av) ps)"
  by (induction ps) auto

lemma first_alternative_find:
  "first_alternative av =
     map_option last_segment (find (\<lambda>n. contains ''gemini'' n \<and> \<not> contains ''vision'' n) av)"
  by (induction av) auto

text \<open>
  Claim C9. \<open>list_available_models\<close> returns the first name of the preferred
  list, in its order, that the provider lists, without its namespace prefix
  (\<open>gemini-1.5-flash\<close>, \<open>gemini-pro\<close> or \<open>gemini-1.5-pro\<close>); when the provider lists
  none of them, the first listed name that contains \<open>gemini\<close> and does not contain
  \<open>vision\<close>, cut down to what follows its last slash; and \<open>gemini-1.5-pro\<close> when
  listing the models raises. What follows the last slash of \<open>ns/x\<close> is \<open>x\<close> when
  \<open>x\<close> has no slash.
\<close>

theorem model_selection:
  "(listing = Inr av \<longrightarrow>
      (case find (\<lambda>p. p \<in> set av) preferred_models of
         Some p \<Rightarrow> list_available_models listing = Returned (last_segment p)
       | None \<Rightarrow>
           (case find (\<lambda>n. contains ''gemini'' n \<and> \<not> contains ''vision'' n) av of
              Some n \<Rightarrow> list_available_models listing = Returned (last_segment n)
            | None \<Rightarrow> list_available_models listing = Exited 1)))
   \<and> (listing = Inl e \<longrightarrow> list_available_models listing = Returned ''gemini-1.5-pro'')
   \<and> map last_segment preferred_models = [''gemini-1.5-flash'', ''gemini-pro'', ''gemini-1.5-pro'']
   \<and> (CHR ''/'' \<notin> set x \<longrightarrow> last_segment (ns @ CHR ''/'' # x) = x)"
proof -
  have 1: "listing = Inr av \<longrightarrow>
      (case find (\<lambda>p. p \<in> set av) preferred_models of
         Some p \<Rightarrow> list_available_models listing = Returned (last_segment p)
       | None \<Rightarrow>
           (case find (\<lambda>n. contains ''gemini'' n \<and> \<not> contains ''vision'' n) av of
              Some n \<Rightarrow> list_available_models listing = Returned (last_segment n)
            | None \<Rightarrow> list_available_models listing = Exited 1))"
    by (simp add: list_available_models_def first_preferred_find first_alternative_find
          split: option.splits)
  have 2: "listing = Inl e \<longrightarrow> list_available_models listing = Returned ''gemini-1.5-pro''"
    by (simp add: list_available_models_def)
  have 3: "map last_segment preferred_models = [''gemini-1.5-flash'', ''gemini-pro'', ''gemini-1.5-pro'']"
    by (simp add: preferred_models_def last_segment_def)
  have 4: "CHR ''/'' \<notin> set x \<longrightarrow> last_segment (ns @ CHR ''/'' # x) = x"
    using last_segment_append by blast
  from 1 2 3 4 show ?thesis by blast
qed

theorem model_selection_witness:
  "list_available_models
     (Inr [''models/gemini-pro-vision'', ''models/gemini-1.5-pro'', ''models/gemini-pro''])
     = Returned ''gemini-pro''
   \<and> list_available_models (Inr [''models/gemini-pro-vision'', ''models/gemini-2.0-flash''])
     = Returned ''gemini-2.0-flash''
   \<and> list_available_models (Inl (Exn ''ServiceUnavailable'' ''503 unavailable''))
     = Returned ''gemini-1.5-pro''"
proof -
  have a: "list_available_models
     (Inr [''models/gemini-pro-vision'', ''models/gemini-1.5-pro'', ''models/gemini-pro''])
     = Returned ''gemini-pro''"
    using model_selection[of
        "Inr [''models/gemini-pro-vision'', ''models/gemini-1.5-pro'', ''models/gemini-pro'']"
        "[''models/gemini-pro-vision'', ''models/gemini-1.5-pro'', ''models/gemini-pro'']"]
    by (simp add: preferred_models_def last_segment_def)
  have b: "list_available_models (Inr [''models/gemini-pro-vision'', ''models/gemini-2.0-flash''])
     = Returned ''gemini-2.0-flash''"
    using model_selection[of
        "Inr [''models/gemini-pro-vision'', ''models/gemini-2.0-flash'']"
        "[''models/gemini-pro-vision'', ''models/gemini-2.0-flash'']"]
    by (simp add: preferred_models_def last_segment_def)
  have c: "list_available_models (Inl (Exn ''ServiceUnavailable'' ''503 unavailable''))
     = Returned ''gemini-1.5-pro''"
    using model_selection[of "Inl (Exn ''ServiceUnavailable'' ''503 unavailable'')" _
        "Exn ''ServiceUnavailable'' ''503 unavailable''"]
    by simp
  from a b c show ?thesis by blast
qed

section \<open>Properties of the orchestrator\<close>

lemma loop_raises_or_default:
  assumes H: "\<forall>m' w'. \<exists>w''. (\<exists>e. func m' w' = (Inl e, w'')) \<or> func m' w' = (Inr d, w'')"
  shows "\<exists>tr w'. (\<exists>e. fallback_loop mk func tried e0 names w = (Inl e, tr, w'))
                 \<or> fallback_loop mk func tried e0 names w = (Inr d, tr, w')"
proof (induction names arbitrary: tried e0 w)
  case Nil
  show ?case by simp
next
  case (Cons a ns)
  show ?case
  proof (cases "a \<in> tried \<or> (''models/'' @ a) \<in> tried")
    case True
    then show ?thesis using Cons.IH[of tried e0 w] by simp
  next
    case False
    let ?tried' = "insert (''models/'' @ a) (insert a tried)"
    obtain r w1 where mk: "mk a w = (r, w1)" by (cases "mk a w") auto
    show ?thesis
    proof (cases r)
      case (Inl e)
      show ?thesis
      proof (cases "fallback_continues e")
        case True
        from Cons.IH[of ?tried' e w1] show ?thesis
          using False mk Inl True by (auto simp: Let_def emit_def)
      next
        case nc: False
        show ?thesis using False mk Inl nc by (simp add: Let_def emit_def)
      qed
    next
      case (Inr m')
      from H obtain w2 where f: "(\<exists>e. func m' w1 = (Inl e, w2)) \<or> func m' w1 = (Inr d, w2)"
        by blast
      show ?thesis
      proof (cases "func m' w1 = (Inr d, w2)")
        case True
        then show ?thesis using False mk Inr by (simp add: Let_def)
      next
        case nf: False
        with f obtain e where fe: "func m' w1 = (Inl e, w2)" by blast
        show ?thesis
        proof (cases "fallback_continues e")
          case True
          from Cons.IH[of ?tried' e w2] show ?thesis
            using False mk Inr fe True by (auto simp: Let_def emit_def)
        next
          case nc: False
          show ?thesis using False mk Inr fe nc by (simp add: Let_def emit_def)
        qed
      qed
    qed
  qed
qed

lemma retry_raises_or_default:
  assumes H: "\<forall>m' w'. \<exists>w''. (\<exists>e. func m' w' = (Inl e, w'')) \<or> func m' w' = (Inr d, w'')"
  shows "\<exists>tr w'. (\<exists>e. retry_with_models mk func m w = (Inl e, tr, w'))
                 \<or> retry_with_models mk func m w = (Inr d, tr, w')"
proof -
  from H obtain w1 where f: "(\<exists>e. func m w = (Inl e, w1)) \<or> func m w = (Inr d, w1)" by blast
  show ?thesis
  proof (cases "func m w = (Inr d, w1)")
    case True
    then show ?thesis by (simp add: retry_with_models_def)
  next
    case False
    with f obtain e where fe: "func m w = (Inl e, w1)" by blast
    show ?thesis
    proof (cases "quota_error e")
      case nq: False
      then show ?thesis using fe by (simp add: retry_with_models_def)
    next
      case True
      from loop_raises_or_default[OF H, of mk "initial_tried m" e FALLBACK_MODELS w1]
      show ?thesis using fe True by (auto simp: retry_with_models_def emit_def)
    qed
  qed
qed

lemma generate_content_raises_or_resume:
  assumes G: "\<forall>m' c p w'. \<exists>e w''. gen m' (TailorPrompt resume jd c p) w' = (Inl e, w'')"
  shows "\<exists>w''. (\<exists>e. generate_content gen resume jd c p m' w' = (Inl e, w''))
               \<or> generate_content gen resume jd c p m' w' = (Inr resume, w'')"
proof -
  from G obtain e w'' where "gen m' (TailorPrompt resume jd c p) w' = (Inl e, w'')" by blast
  then show ?thesis by (auto simp: generate_content_def reraise_quota_def)
qed

lemma tailored_is_resume:
  assumes G: "\<forall>m' c p w'. \<exists>e w''. gen m' (TailorPrompt resume jd c p) w' = (Inl e, w'')"
  shows "fst (generate_tailored_content gen mk m resume jd c p w) = resume"
proof -
  have H: "\<forall>m' w'. \<exists>w''. (\<exists>e. generate_content gen resume jd c p m' w' = (Inl e, w''))
               \<or> generate_content gen resume jd c p m' w' = (Inr resume, w'')"
    using generate_content_raises_or_resume[OF G] by blast
  from retry_raises_or_default[OF H, of mk m w]
  show ?thesis by (auto simp: generate_tailored_content_def)
qed

text \<open>
  Claim C4. When the provider raises on every request to tailor this resume,
  whichever the model, \<open>generate_tailored_content\<close> returns the resume it was
  given, and the text \<open>main\<close> hands to \<open>save_tailored_resume\<close> is the header comment
  followed by exactly that resume.
\<close>

theorem transform_failure_keeps_original:
  assumes "\<forall>m' c p w'. \<exists>e w''. gen m' (TailorPrompt resume jd c p) w' = (Inl e, w'')"
  shows "fst (generate_tailored_content gen mk m resume jd company position w) = resume
       \<and> (\<exists>c p. fst (main_body loads fmt gen mk m resume jd args_company args_position ts w)
                  = header_comment c p ts @ code_points resume)"
proof -
  have 1: "fst (generate_tailored_content gen mk m resume jd company position w) = resume"
    using assms by (rule tailored_is_resume)
  obtain c p st w1 where
    r: "resolve_fields loads gen mk m jd args_company args_position w = (c, p, st, w1)"
    by (cases "resolve_fields loads gen mk m jd args_company args_position w") auto
  obtain g tr2 w2 where
    t: "generate_tailored_content gen mk m resume jd c p w1 = (g, tr2, w2)"
    by (cases "generate_tailored_content gen mk m resume jd c p w1") auto
  have "g = resume" using tailored_is_resume[OF assms, of mk m c p w1] t by simp
  then have "fst (main_body loads fmt gen mk m resume jd args_company args_position ts w)
     = header_comment (py_str fmt c) (py_str fmt p) ts @ code_points resume"
    using r t by (simp add: main_body_def)
  with 1 show ?thesis by blast
qed

theorem transform_failure_keeps_original_witness:
  "(\<forall>m' c p w'. \<exists>e w''.
       provider_down (Exn ''ResourceExhausted'' ''429 Resource has been exhausted'') m'
         (TailorPrompt ''Jane Doe, engineer'' ''We hire'' c p) w' = (Inl e, w''))
   \<and> fst (generate_tailored_content
            (provider_down (Exn ''ResourceExhausted'' ''429 Resource has been exhausted''))
            make_handle (Model (Some ''models/gemini-1.5-flash''))
            ''Jane Doe, engineer'' ''We hire'' (JStr (code_points ''Acme'')) (JStr (code_points ''Engineer'')) 0)
       = ''Jane Doe, engineer''
   \<and> (\<exists>c p. fst (main_body json_loads str_as_type_name
            (provider_down (Exn ''ResourceExhausted'' ''429 Resource has been exhausted''))
            make_handle (Model (Some ''models/gemini-1.5-flash''))
            ''Jane Doe, engineer'' ''We hire'' None None ''2025-01-01 00:00:00'' 0)
          = header_comment c p ''2025-01-01 00:00:00'' @ code_points ''Jane Doe, engineer'')"
proof -
  have h: "\<forall>m' c p w'. \<exists>e w''.
       provider_down (Exn ''ResourceExhausted'' ''429 Resource has been exhausted'') m'
         (TailorPrompt ''Jane Doe, engineer'' ''We hire'' c p) w' = (Inl e, w'')"
    by (simp add: provider_down_def)
  from transform_failure_keeps_original[OF h] h show ?thesis by blast
qed

text \<open>
  Claim C8. When both \<open>--company\<close> and \<open>--position\<close> are given, \<open>main\<close> does not
  call \<open>extract_company_and_position\<close>: its only stage is the tailoring, started
  in the state of the provider that \<open>main\<close> itself started in, and the text saved
  begins with the two header lines holding the given company and position as they
  were typed.
\<close>

theorem supplied_fields_skip_extraction:
  "main_body loads fmt gen mk m resume jd (Some company) (Some position) ts w =
     (case generate_tailored_content gen mk m resume jd
             (JStr (code_points company)) (JStr (code_points position)) w of
        (generated, tr, w') \<Rightarrow>
          (code_points
             (''% Tailored resume for '' @ company @ '' - '' @ position @ [CHR 0x0A]
              @ ''% Auto-tailored using Gemini AI on '' @ ts @ [CHR 0x0A, CHR 0x0A]
              @ (if generated = [] \<or> generated = resume then resume else generated)),
           [Tailoring tr], w'))"
  by (simp add: main_body_def resolve_fields_def arg_value_def header_comment_def py_str_def
        code_points_def split: prod.splits)


section \<open>Properties of the field extractor\<close>


text \<open>The decoder on escapes: a code point above 255, and a pair of surrogates.\<close>

lemma json_loads_unicode_escape:
  \<open>json_loads (''{"company":"Acme '' @ [CHR 0x5C] @ ''u2122","position":"Engineer"}'')
     = Decoded (JObj [(code_points ''company'', JStr (code_points ''Acme '' @ [8482])),
                      (code_points ''position'', JStr (code_points ''Engineer''))])\<close>
  by code_simp

lemma scan_string_surrogate_pair:
  \<open>scan_string ([CHR 0x5C] @ ''ud83d'' @ [CHR 0x5C] @ ''ude00"'') = Some ([128512], [])\<close>
  by (simp add: hex4_def hex_val_def is_high_surrogate_def is_low_surrogate_def
        join_surrogates_def put_def)

lemma json_loads_surrogate_pair:
  \<open>json_loads (''"'' @ [CHR 0x5C] @ ''ud83d'' @ [CHR 0x5C] @ ''ude00"'') = Decoded (JStr [128512])\<close>
proof -
  let ?s = \<open>[CHR 0x5C] @ ''ud83d'' @ [CHR 0x5C] @ ''ude00"''\<close>
  have ws: \<open>skip_ws (''"'' @ ?s) = CHR 0x22 # ?s\<close>
    by (simp add: skip_ws_def json_ws_def)
  have sv: \<open>scan_value (Suc k) (CHR 0x22 # cs)
             = map_option (\<lambda>(str, rest). (JStr str, rest)) (scan_string cs)\<close> for k cs
    by simp
  show ?thesis
    unfolding json_loads_def ws sv scan_string_surrogate_pair by (simp add: skip_ws_def)
qed

lemma parse_reply_unicode_escape:
  \<open>parse_reply json_loads
       (''{"company":"Acme '' @ [CHR 0x5C] @ ''u2122","position":"Engineer"}'')
     = Inr (JStr (code_points ''Acme '' @ [8482]), JStr (code_points ''Engineer''))\<close>
  by code_simp














text \<open>
  Claim C10. Method 3 decodes the reply after every occurrence of the fence
  marker and then every occurrence of \<open>json\<close> has been deleted from the whole of
  it, and the result stripped. The reply below has the position \<open>json dev\<close>; it
  has no fence and its fields are in the order method 2 does not match, so method
  3 decodes it, without the \<open>json\<close> of the position, and the position returned is
  \<open>dev\<close> with a leading space.
\<close>

theorem method3_deletes_json_everywhere:
  \<open>method3 loads t info
     = (if falsy info
        then try_loads loads [''JSONDecodeError'']
               (strip (py_replace ''json'' [] (py_replace ''```'' [] t))) info
        else Inr info)
   \<and> json_loads ''{"position": "json dev", "company": "Acme"}''
       = Decoded (JObj [(code_points ''position'', JStr (code_points ''json dev'')), (code_points ''company'', JStr (code_points ''Acme''))])
   \<and> method1 json_loads ''{"position": "json dev", "company": "Acme"}'' = Inr None
   \<and> method2 json_loads ''{"position": "json dev", "company": "Acme"}'' None = Inr None
   \<and> cleaned_text ''{"position": "json dev", "company": "Acme"}''
       = ''{"position": " dev", "company": "Acme"}''
   \<and> method3 json_loads ''{"position": "json dev", "company": "Acme"}'' None
       = Inr (Some (JObj [(code_points ''position'', JStr (code_points '' dev'')), (code_points ''company'', JStr (code_points ''Acme''))]))
   \<and> parse_reply json_loads ''{"position": "json dev", "company": "Acme"}''
       = Inr (JStr (code_points ''Acme''), JStr (code_points '' dev''))\<close>
proof -
  have 1: "method3 loads t info
     = (if falsy info
        then try_loads loads [''JSONDecodeError'']
               (strip (py_replace ''json'' [] (py_replace ''```'' [] t))) info
        else Inr info)"
    by (simp add: method3_def cleaned_text_def)
  have 2: \<open>json_loads ''{"position": "json dev", "company": "Acme"}''
       = Decoded (JObj [(code_points ''position'', JStr (code_points ''json dev'')), (code_points ''company'', JStr (code_points ''Acme''))])\<close>
    by code_simp
  have 3: \<open>method1 json_loads ''{"position": "json dev", "company": "Acme"}'' = Inr None\<close>
    by code_simp
  have 4: \<open>method2 json_loads ''{"position": "json dev", "company": "Acme"}'' None = Inr None\<close>
    by code_simp
  have 5: \<open>cleaned_text ''{"position": "json dev", "company": "Acme"}''
       = ''{"position": " dev", "company": "Acme"}''\<close>
    by code_simp
  have 6: \<open>method3 json_loads ''{"position": "json dev", "company": "Acme"}'' None
       = Inr (Some (JObj [(code_points ''position'', JStr (code_points '' dev'')), (code_points ''company'', JStr (code_points ''Acme''))]))\<close>
    by code_simp
  have 7: \<open>parse_reply json_loads ''{"position": "json dev", "company": "Acme"}''
       = Inr (JStr (code_points ''Acme''), JStr (code_points '' dev''))\<close>
    by code_simp
  from 1 2 3 4 5 6 7 show ?thesis by blast
qed


end
